theory Spec2Isabelle
  imports Complex_Main
begin

section \<open>The plant scanner component (src/components/PlantScanner.tsx)\<close>

text \<open>
  The component keeps three state variables (\<open>isScanning\<close>, \<open>imagePreview\<close>,
  \<open>result\<close>), owns a reference to a hidden file input, and has two handlers:
  \<open>handleImageCapture\<close>, an asynchronous function with three suspension points, and
  \<open>handleClear\<close>. The model below passes the component state explicitly, records the
  effects on the outside world (notifications, requests, console) as logs in that
  state, and splits the asynchronous handler at its suspension points, so that other
  handlers can be run between two segments exactly as the event loop allows.
\<close>

subsection \<open>Values parsed from the response body\<close>

text \<open>
  \<open>response.json()\<close> yields an untyped value. A finite number is taken by its exact
  value (the two zeros are one value: the component cannot tell them apart); a
  literal too large for a double parses to an infinity. An object is the list of
  its properties in the order of the text, and a repeated key takes its last value,
  so a property is read from the reversed list. Of a string only its emptiness,
  its first character and its text are read. \<open>undefined\<close> is not a JSON value: an
  expression that may be undefined has type \<open>json option\<close>, with \<open>None\<close> for
  undefined.
\<close>

datatype json =
    JNull
  | JBool bool
  | JNum rat
  | JPosInfinity
  | JNegInfinity
  | JStr string
  | JArr "json list"
  | JObj "(string \<times> json) list"

text \<open>
  What can be thrown inside the \<open>try\<close> block: the three rejections, the TypeError
  of reading a property of null or undefined, and the TypeError of converting an
  object that has no callable \<open>toString\<close> to a primitive.
\<close>

datatype fault =
  ReadFailure | FetchFailure | ParseFailure | NullDereference | NotConvertible

datatype 'a outcome = Resolved 'a | Rejected fault

text \<open>
  The arithmetic of the language runtime, which never throws: the decimal text of a
  finite number, whether the number a string denotes is greater than 0, and the
  floating-point expression \<open>(v * 100).toFixed(1)\<close> on a primitive \<open>v\<close>. They
  are parameters of the model.
\<close>

record engine =
  number_to_string :: "rat \<Rightarrow> string"
  string_gt_zero :: "string \<Rightarrow> bool"
  times100_toFixed1 :: "json \<Rightarrow> string"

text \<open>Sequencing of two computations that may throw.\<close>

fun then_do :: "'e + 'a \<Rightarrow> ('a \<Rightarrow> 'e + 'b) \<Rightarrow> 'e + 'b" where
  "then_do (Inl e) k = Inl e"
| "then_do (Inr x) k = k x"

definition own_property :: "(string \<times> json) list \<Rightarrow> string \<Rightarrow> json option" where
  "own_property kvs name = map_of (rev kvs) name"

text \<open>
  \<open>v.name\<close> on a value that is neither null nor undefined, for the property names
  the component reads by name (none of them is a built-in property of strings,
  arrays, numbers or booleans).
\<close>

fun get_property :: "json \<Rightarrow> string \<Rightarrow> json option" where
  "get_property (JObj kvs) name = own_property kvs name"
| "get_property _ name = None"

text \<open>\<open>e.name\<close>: a TypeError when \<open>e\<close> is undefined or null.\<close>

fun member :: "json option \<Rightarrow> string \<Rightarrow> fault + json option" where
  "member None name = Inl NullDereference"
| "member (Some JNull) name = Inl NullDereference"
| "member (Some v) name = Inr (get_property v name)"

text \<open>\<open>e?.name\<close>: undefined when \<open>e\<close> is undefined or null.\<close>

fun opt_member :: "json option \<Rightarrow> string \<Rightarrow> json option" where
  "opt_member None name = None"
| "opt_member (Some JNull) name = None"
| "opt_member (Some v) name = get_property v name"

text \<open>
  \<open>e?.length\<close>: arrays and strings have a length, an object has one when it has a
  property of that name.
\<close>

fun opt_length :: "json option \<Rightarrow> json option" where
  "opt_length (Some (JArr xs)) = Some (JNum (of_nat (length xs)))"
| "opt_length (Some (JStr cs)) = Some (JNum (of_nat (length cs)))"
| "opt_length (Some (JObj kvs)) = own_property kvs ''length''"
| "opt_length _ = None"

text \<open>\<open>e[0]\<close>: a TypeError when \<open>e\<close> is undefined or null, undefined out of range.\<close>

fun index0 :: "json option \<Rightarrow> fault + json option" where
  "index0 None = Inl NullDereference"
| "index0 (Some JNull) = Inl NullDereference"
| "index0 (Some (JArr xs)) = Inr (case xs of [] \<Rightarrow> None | x # _ \<Rightarrow> Some x)"
| "index0 (Some (JStr cs)) = Inr (case cs of [] \<Rightarrow> None | c # _ \<Rightarrow> Some (JStr [c]))"
| "index0 (Some (JObj kvs)) = Inr (own_property kvs ''0'')"
| "index0 (Some _) = Inr None"

text \<open>
  The conversion of a value to a string. An object parsed from JSON has no callable
  property of its own, so an own \<open>toString\<close> hides the inherited one and the
  conversion throws; without it the inherited method answers
  \<open>[object Object]\<close>. An array is joined with commas, null elements giving the
  empty string, and throws when one of its elements does.
\<close>

fun to_string :: "engine \<Rightarrow> json \<Rightarrow> fault + string"
  and join_elements :: "engine \<Rightarrow> json list \<Rightarrow> fault + string" where
  "to_string eng JNull = Inr ''null''"
| "to_string eng (JBool b) = Inr (if b then ''true'' else ''false'')"
| "to_string eng (JNum n) = Inr (number_to_string eng n)"
| "to_string eng JPosInfinity = Inr ''Infinity''"
| "to_string eng JNegInfinity = Inr ''-Infinity''"
| "to_string eng (JStr cs) = Inr cs"
| "to_string eng (JArr xs) = join_elements eng xs"
| "to_string eng (JObj kvs) =
     (case own_property kvs ''toString'' of
        Some v \<Rightarrow> Inl NotConvertible
      | None \<Rightarrow> Inr ''[object Object]'')"
| "join_elements eng [] = Inr []"
| "join_elements eng (x # xs) =
     then_do (if x = JNull then Inr [] else to_string eng x) (\<lambda>first.
       if xs = [] then Inr first
       else then_do (join_elements eng xs) (\<lambda>others. Inr (first @ '','' @ others)))"

text \<open>
  The conversion to a primitive that a comparison or a product applies to an
  operand: arrays and objects become their string.
\<close>

fun to_primitive :: "engine \<Rightarrow> json \<Rightarrow> fault + json" where
  "to_primitive eng (JArr xs) = then_do (to_string eng (JArr xs)) (\<lambda>str. Inr (JStr str))"
| "to_primitive eng (JObj kvs) = then_do (to_string eng (JObj kvs)) (\<lambda>str. Inr (JStr str))"
| "to_primitive eng v = Inr v"

text \<open>\<open>e > 0\<close>: undefined is NaN, null is 0, true is 1, a string is the number it denotes.\<close>

fun primitive_gt_zero :: "engine \<Rightarrow> json \<Rightarrow> bool" where
  "primitive_gt_zero eng (JBool b) = b"
| "primitive_gt_zero eng (JNum n) = (0 < n)"
| "primitive_gt_zero eng JPosInfinity = True"
| "primitive_gt_zero eng (JStr cs) = string_gt_zero eng cs"
| "primitive_gt_zero eng _ = False"

fun gt_zero :: "engine \<Rightarrow> json option \<Rightarrow> fault + bool" where
  "gt_zero eng None = Inr False"
| "gt_zero eng (Some v) =
     then_do (to_primitive eng v) (\<lambda>primitive. Inr (primitive_gt_zero eng primitive))"

fun truthy :: "json option \<Rightarrow> bool" where
  "truthy None = False"
| "truthy (Some JNull) = False"
| "truthy (Some (JBool b)) = b"
| "truthy (Some (JNum n)) = (n \<noteq> 0)"
| "truthy (Some (JStr cs)) = (cs \<noteq> [])"
| "truthy (Some _) = True"

text \<open>\<open>a || b\<close>\<close>

definition js_or :: "json option \<Rightarrow> json option \<Rightarrow> json option" where
  "js_or a b = (if truthy a then a else b)"

text \<open>A value substituted into a template literal.\<close>

fun template_string :: "engine \<Rightarrow> json option \<Rightarrow> fault + string" where
  "template_string eng None = Inr ''undefined''"
| "template_string eng (Some v) = to_string eng v"

subsection \<open>Component state and effects\<close>

text \<open>
  The interface \<open>PlantIdentification\<close> (lines 8 to 17): every field is optional, and
  at run time holds whatever the response held.
\<close>

record plant_identification =
  common_names :: "json option"
  scientific_name :: "json option"
  probability :: "json option"
  wiki_description :: "json option"
  taxonomy :: "json option"

record toast =
  title :: string
  description :: string
  variant :: "string option"

text \<open>
  The argument of \<open>fetch\<close>. The body is the value handed to \<open>JSON.stringify\<close>; the
  value of the \<open>Api-Key\<close> header is the build-time variable, which may be undefined.
\<close>

record request =
  url :: string
  http_method :: string
  headers :: "(string \<times> string option) list"
  body :: json

text \<open>
  \<open>fileInput\<close> is \<open>fileInputRef.current\<close> reduced to its \<open>value\<close> (\<open>None\<close> while
  the reference is null). \<open>toasts\<close>, \<open>requests\<close> and \<open>console\<close> log the calls of
  \<open>toast\<close>, \<open>fetch\<close> and \<open>console.error\<close> in order.
\<close>

record scanner =
  isScanning :: bool
  imagePreview :: "string option"
  result :: "plant_identification option"
  fileInput :: "string option"
  toasts :: "toast list"
  requests :: "request list"
  console :: "fault list"

text \<open>The initial values of lines 20 to 23, with nothing emitted yet.\<close>

definition initial :: scanner where
  "initial = \<lparr>isScanning = False, imagePreview = None, result = None,
     fileInput = Some [], toasts = [], requests = [], console = []\<rparr>"

text \<open>No scan running, no preview and no result: the state variables as initially.\<close>

definition idle :: "scanner \<Rightarrow> bool" where
  "idle s = (isScanning s = isScanning initial \<and> imagePreview s = imagePreview initial
     \<and> result s = result initial)"

subsection \<open>handleClear (lines 96 to 100)\<close>

definition handleClear :: "scanner \<Rightarrow> scanner" where
  "handleClear s =
     s\<lparr>imagePreview := None, result := None,
       fileInput := (case fileInput s of None \<Rightarrow> None | Some _ \<Rightarrow> Some [])\<rparr>"

subsection \<open>handleImageCapture (lines 36 to 94)\<close>

datatype phase = AwaitEncode | AwaitFetch | AwaitJson | Done

text \<open>Lines 37 to 48, up to the first suspension.\<close>

fun begin_capture :: "'file option \<Rightarrow> scanner \<Rightarrow> phase \<times> scanner" where
  "begin_capture None s = (Done, s)"
| "begin_capture (Some file) s = (AwaitEncode, s\<lparr>isScanning := True, result := None\<rparr>)"

text \<open>Lines 50 to 60.\<close>

definition identify_request :: "string option \<Rightarrow> string \<Rightarrow> request" where
  "identify_request api_key base64Image =
     \<lparr>url = ''https://api.plant.id/v2/identify'',
      http_method = ''POST'',
      headers = [(''Content-Type'', Some ''application/json''), (''Api-Key'', api_key)],
      body = JObj [(''images'', JArr [JStr base64Image]), (''similar_images'', JBool True)]\<rparr>"

text \<open>
  The object literal of lines 66 to 72. Its first property reads
  \<open>topResult.plant_details\<close>, which throws when \<open>topResult\<close> is null or undefined.
\<close>

fun identification_of :: "json option \<Rightarrow> fault + plant_identification" where
  "identification_of None = Inl NullDereference"
| "identification_of (Some JNull) = Inl NullDereference"
| "identification_of (Some topResult) = Inr
     \<lparr>common_names =
        js_or (opt_member (get_property topResult ''plant_details'') ''common_names'')
          (Some (JArr [])),
      scientific_name = get_property topResult ''plant_name'',
      probability = get_property topResult ''probability'',
      wiki_description =
        opt_member (get_property topResult ''plant_details'') ''wiki_description'',
      taxonomy = opt_member (get_property topResult ''plant_details'') ''taxonomy''\<rparr>"

text \<open>The three notifications (lines 73 to 76, 78 to 82 and 86 to 90).\<close>

definition toast_identified :: "string \<Rightarrow> toast" where
  "toast_identified found =
     \<lparr>title = ''Plant Identified!'', description = found, variant = None\<rparr>"

definition toast_no_match :: toast where
  "toast_no_match =
     \<lparr>title = ''No Match Found'',
      description = ''Try a clearer image or different angle.'',
      variant = Some ''destructive''\<rparr>"

definition toast_error :: toast where
  "toast_error =
     \<lparr>title = ''Error'',
      description = ''Unable to identify this plant.'',
      variant = Some ''destructive''\<rparr>"

text \<open>
  The condition of line 64, \<open>data.suggestions[0]\<close> of line 65 and the template
  literal of line 75.
\<close>

definition has_suggestions :: "engine \<Rightarrow> json \<Rightarrow> fault + bool" where
  "has_suggestions eng data = gt_zero eng (opt_length (opt_member (Some data) ''suggestions''))"

definition first_suggestion :: "json \<Rightarrow> fault + json option" where
  "first_suggestion data = then_do (member (Some data) ''suggestions'') index0"

definition found_text :: "engine \<Rightarrow> json option \<Rightarrow> fault + string" where
  "found_text eng topResult =
     then_do (member topResult ''plant_name'') (\<lambda>plant_name.
     then_do (template_string eng plant_name) (\<lambda>name. Inr (''Found: '' @ name)))"

text \<open>A fault is thrown in the state reached so far, which the \<open>catch\<close> block receives.\<close>

fun thrown_in :: "scanner \<Rightarrow> fault + 'a \<Rightarrow> fault \<times> scanner + 'a" where
  "thrown_in s (Inl e) = Inl (e, s)"
| "thrown_in s (Inr x) = Inr x"

text \<open>
  Lines 64 to 83, once \<open>data\<close> is there: the result is a fault with the state in
  which it was thrown, or the state at the end of the block. \<open>setResult\<close> is called
  before the argument of \<open>toast\<close> is evaluated, so a fault of the template literal
  is thrown with the record already stored.
\<close>

definition on_data :: "engine \<Rightarrow> json \<Rightarrow> scanner \<Rightarrow> fault \<times> scanner + scanner" where
  "on_data eng data s =
     then_do (thrown_in s (has_suggestions eng data)) (\<lambda>positive.
       if positive then
         then_do (thrown_in s (first_suggestion data)) (\<lambda>topResult.
         then_do (thrown_in s (identification_of topResult)) (\<lambda>identification.
         then_do (thrown_in (s\<lparr>result := Some identification\<rparr>) (found_text eng topResult))
           (\<lambda>found.
             Inr (s\<lparr>result := Some identification,
                    toasts := toasts s @ [toast_identified found]\<rparr>))))
       else Inr (s\<lparr>toasts := toasts s @ [toast_no_match]\<rparr>))"

text \<open>Lines 84 to 90 and 91 to 93.\<close>

definition catch_block :: "fault \<Rightarrow> scanner \<Rightarrow> scanner" where
  "catch_block e s = s\<lparr>console := console s @ [e], toasts := toasts s @ [toast_error]\<rparr>"

definition finally_block :: "scanner \<Rightarrow> scanner" where
  "finally_block s = s\<lparr>isScanning := False\<rparr>"

text \<open>
  What can happen after the capture began: the clear button is pressed, the preview
  reader finishes (with the data URL, or null when it failed), or the promise the
  handler is suspended on settles. The response is reduced to what its \<open>json()\<close>
  will settle to, so \<open>Fetched\<close> carries nothing.
\<close>

datatype event =
    Clear
  | PreviewLoadEnd "string option"
  | Encoded "string outcome"
  | Fetched "unit outcome"
  | Parsed "json outcome"

text \<open>
  One turn of the event loop. A settlement resumes the handler in the phase that
  awaits it; the segment runs to the next suspension or through \<open>catch\<close> and
  \<open>finally\<close> to the end.
\<close>

fun step :: "engine \<Rightarrow> string option \<Rightarrow> phase \<times> scanner \<Rightarrow> event \<Rightarrow> phase \<times> scanner" where
  "step eng key (p, s) Clear = (p, handleClear s)"
| "step eng key (p, s) (PreviewLoadEnd r) = (p, s\<lparr>imagePreview := r\<rparr>)"
| "step eng key (AwaitEncode, s) (Encoded (Rejected e)) =
     (Done, finally_block (catch_block e s))"
| "step eng key (AwaitEncode, s) (Encoded (Resolved base64Image)) =
     (AwaitFetch, s\<lparr>requests := requests s @ [identify_request key base64Image]\<rparr>)"
| "step eng key (AwaitFetch, s) (Fetched (Rejected e)) =
     (Done, finally_block (catch_block e s))"
| "step eng key (AwaitFetch, s) (Fetched (Resolved u)) = (AwaitJson, s)"
| "step eng key (AwaitJson, s) (Parsed (Rejected e)) =
     (Done, finally_block (catch_block e s))"
| "step eng key (AwaitJson, s) (Parsed (Resolved data)) =
     (Done, finally_block
        (case on_data eng data s of Inl (e, s') \<Rightarrow> catch_block e s' | Inr s' \<Rightarrow> s'))"
| "step eng key (p, s) _ = (p, s)"

definition run :: "engine \<Rightarrow> string option \<Rightarrow> phase \<times> scanner \<Rightarrow> event list \<Rightarrow> phase \<times> scanner" where
  "run eng key c es = foldl (step eng key) c es"

text \<open>
  What the outside world answers to one attempt: the preview reader's result, the
  outcome of \<open>convertImageToBase64\<close>, and the outcome of \<open>fetch\<close> together with
  that of the response's \<open>json()\<close>.
\<close>

record attempt_env =
  preview_loaded :: "string option"
  encoded :: "string outcome"
  fetched :: "json outcome outcome"

definition attempt_events :: "attempt_env \<Rightarrow> event list" where
  "attempt_events env =
     PreviewLoadEnd (preview_loaded env) #
     (case encoded env of
        Rejected e \<Rightarrow> [Encoded (Rejected e)]
      | Resolved base64Image \<Rightarrow>
          Encoded (Resolved base64Image) #
          (case fetched env of
             Rejected e \<Rightarrow> [Fetched (Rejected e)]
           | Resolved response \<Rightarrow> [Fetched (Resolved ()), Parsed response]))"

text \<open>The handler run on a change event with nothing else happening in between.\<close>

definition handleImageCapture ::
  "engine \<Rightarrow> string option \<Rightarrow> 'file option \<Rightarrow> attempt_env \<Rightarrow> scanner \<Rightarrow> phase \<times> scanner" where
  "handleImageCapture eng key file env s =
     (case file of
        None \<Rightarrow> begin_capture file s
      | Some f \<Rightarrow> run eng key (begin_capture file s) (attempt_events env))"

subsection \<open>The confidence line (lines 172 to 179)\<close>

text \<open>
  The value of the expression \<open>result.probability && (...)\<close>: the probability itself
  when it is falsy, the paragraph with the formatted percentage otherwise. The
  product converts its operand to a primitive first, which may throw.
\<close>

datatype child = Falsy_child "json option" | Confidence_paragraph string

definition confidence_child :: "engine \<Rightarrow> plant_identification \<Rightarrow> fault + child" where
  "confidence_child eng r =
     (case probability r of
        None \<Rightarrow> Inr (Falsy_child None)
      | Some p \<Rightarrow>
          if truthy (Some p)
          then then_do (to_primitive eng p) (\<lambda>primitive.
                 Inr (Confidence_paragraph (times100_toFixed1 eng primitive @ ''%'')))
          else Inr (Falsy_child (Some p)))"

subsection \<open>What an attempt leaves outside the three state variables\<close>

text \<open>
  The notifications, requests and console lines emitted so far, and the scanning
  flag: everything \<open>handleClear\<close> does not write.
\<close>

definition effects :: "scanner \<Rightarrow> toast list \<times> request list \<times> fault list \<times> bool" where
  "effects s = (toasts s, requests s, console s, isScanning s)"

text \<open>
  The state in which the parsed body of an attempt arrives when nothing else
  happened in between: the capture began, the preview was loaded, the image was
  encoded and the request was answered.
\<close>

definition body_awaited :: "engine \<Rightarrow> string option \<Rightarrow> attempt_env \<Rightarrow> string \<Rightarrow> scanner \<Rightarrow> scanner" where
  "body_awaited eng key env base64Image s =
     snd (run eng key (AwaitEncode, s\<lparr>isScanning := True, result := None\<rparr>)
       [PreviewLoadEnd (preview_loaded env), Encoded (Resolved base64Image),
        Fetched (Resolved ())])"

subsection \<open>Concrete inputs\<close>

text \<open>
  An engine for the evaluations below, none of which reaches it. The state when a
  change event fires, the browser having put the chosen file in the input. An
  environment in which reading and the request succeed and the body parses to the
  given value, and one in which the request fails. The suggestion of a well-formed
  response, a response whose only suggestion has probability 0, and one whose
  only suggestion has a name that cannot be converted to a string.
\<close>

definition sample_engine :: engine where
  "sample_engine =
     \<lparr>number_to_string = (\<lambda>n. ''0''),
      string_gt_zero = (\<lambda>cs. False),
      times100_toFixed1 = (\<lambda>v. ''0.0'')\<rparr>"

definition picked :: scanner where
  "picked = initial\<lparr>fileInput := Some ''leaf.jpg''\<rparr>"

definition answered_with :: "json \<Rightarrow> attempt_env" where
  "answered_with data =
     \<lparr>preview_loaded = Some ''data:image/jpeg;base64,AAAA'',
      encoded = Resolved ''data:image/jpeg;base64,AAAA'',
      fetched = Resolved (Resolved data)\<rparr>"

definition offline :: attempt_env where
  "offline =
     \<lparr>preview_loaded = Some ''data:image/jpeg;base64,AAAA'',
      encoded = Resolved ''data:image/jpeg;base64,AAAA'',
      fetched = Rejected FetchFailure\<rparr>"

definition monstera :: json where
  "monstera = JObj
     [(''plant_name'', JStr ''Monstera deliciosa''),
      (''probability'', JNum (97 / 100)),
      (''plant_details'', JObj
         [(''common_names'', JArr [JStr ''Swiss cheese plant'']),
          (''taxonomy'', JObj [(''family'', JStr ''Araceae''), (''genus'', JStr ''Monstera'')])])]"

definition zero_probability_response :: json where
  "zero_probability_response = JObj
     [(''suggestions'', JArr
        [JObj [(''plant_name'', JStr ''Aloe vera''), (''probability'', JNum 0)]])]"

definition unnameable_response :: json where
  "unnameable_response = JObj
     [(''suggestions'', JArr
        [JObj [(''plant_name'', JObj [(''toString'', JNum 1)])]])]"

section \<open>Properties\<close>

subsection \<open>Reading the response\<close>

lemma suggestions_of_not_null:
  "opt_member (Some data) name = Some v \<Longrightarrow> member (Some data) name = Inr (Some v)"
  by (cases data) simp_all

lemma member_not_null:
  "v \<noteq> JNull \<Longrightarrow> member (Some v) name = Inr (get_property v name)"
  by (cases v) simp_all

lemma identification_of_value:
  "topResult \<noteq> JNull \<Longrightarrow> identification_of (Some topResult) = Inr
     \<lparr>common_names =
        js_or (opt_member (get_property topResult ''plant_details'') ''common_names'')
          (Some (JArr [])),
      scientific_name = get_property topResult ''plant_name'',
      probability = get_property topResult ''probability'',
      wiki_description =
        opt_member (get_property topResult ''plant_details'') ''wiki_description'',
      taxonomy = opt_member (get_property topResult ''plant_details'') ''taxonomy''\<rparr>"
  by (cases topResult) simp_all

lemma identified_not_null:
  "identification_of (Some topResult) = Inr r \<Longrightarrow> topResult \<noteq> JNull"
  by auto

lemma then_do_case:
  "then_do m k = (case m of Inl e \<Rightarrow> Inl e | Inr x \<Rightarrow> k x)"
  by (cases m) simp_all

lemma thrown_in_case:
  "thrown_in s m = (case m of Inl e \<Rightarrow> Inl (e, s) | Inr x \<Rightarrow> Inr x)"
  by (cases m) simp_all

lemma has_suggestions_list:
  "opt_member (Some data) ''suggestions'' = Some (JArr (x # xs)) \<Longrightarrow>
   has_suggestions eng data = Inr True"
  by (simp add: has_suggestions_def)

lemma has_suggestions_none:
  "opt_member (Some data) ''suggestions'' = None
     \<or> opt_member (Some data) ''suggestions'' = Some JNull
     \<or> opt_member (Some data) ''suggestions'' = Some (JArr []) \<Longrightarrow>
   has_suggestions eng data = Inr False"
  by (auto simp add: has_suggestions_def)

lemma first_suggestion_list:
  "opt_member (Some data) ''suggestions'' = Some (JArr (x # xs)) \<Longrightarrow>
   first_suggestion data = Inr (Some x)"
  by (simp add: first_suggestion_def suggestions_of_not_null)

lemma found_text_value:
  "topResult \<noteq> JNull \<Longrightarrow>
   found_text eng (Some topResult) =
     then_do (template_string eng (get_property topResult ''plant_name''))
       (\<lambda>name. Inr (''Found: '' @ name))"
  by (simp add: found_text_def member_not_null)

lemma on_data_identified:
  assumes "opt_member (Some data) ''suggestions'' = Some (JArr (topResult # rest))"
    and "identification_of (Some topResult) = Inr r"
    and "template_string eng (get_property topResult ''plant_name'') = Inr name"
  shows "on_data eng data s =
    Inr (s\<lparr>result := Some r, toasts := toasts s @ [toast_identified (''Found: '' @ name)]\<rparr>)"
  by (simp add: on_data_def has_suggestions_list [OF assms(1)] first_suggestion_list [OF assms(1)]
      assms(2) found_text_value [OF identified_not_null [OF assms(2)]] assms(3))

lemma on_data_name_fault:
  assumes "opt_member (Some data) ''suggestions'' = Some (JArr (topResult # rest))"
    and "identification_of (Some topResult) = Inr r"
    and "template_string eng (get_property topResult ''plant_name'') = Inl e"
  shows "on_data eng data s = Inl (e, s\<lparr>result := Some r\<rparr>)"
  by (simp add: on_data_def has_suggestions_list [OF assms(1)] first_suggestion_list [OF assms(1)]
      assms(2) found_text_value [OF identified_not_null [OF assms(2)]] assms(3))

lemma on_data_stores:
  assumes "opt_member (Some data) ''suggestions'' = Some (JArr (topResult # rest))"
    and "identification_of (Some topResult) = Inr r"
  shows "result (case on_data eng data s of Inl (e, s') \<Rightarrow> catch_block e s' | Inr s' \<Rightarrow> s')
    = Some r"
proof (cases "template_string eng (get_property topResult ''plant_name'')")
  case (Inl e)
  show ?thesis
    by (simp add: on_data_name_fault [OF assms Inl] catch_block_def)
next
  case (Inr name)
  show ?thesis
    by (simp add: on_data_identified [OF assms Inr])
qed

lemma on_data_no_match:
  assumes "opt_member (Some data) ''suggestions'' = None
    \<or> opt_member (Some data) ''suggestions'' = Some JNull
    \<or> opt_member (Some data) ''suggestions'' = Some (JArr [])"
  shows "on_data eng data s = Inr (s\<lparr>toasts := toasts s @ [toast_no_match]\<rparr>)"
  by (simp add: on_data_def has_suggestions_none [OF assms])

lemma on_data_null_first:
  assumes "opt_member (Some data) ''suggestions'' = Some (JArr (JNull # rest))"
  shows "on_data eng data s = Inl (NullDereference, s)"
  by (simp add: on_data_def has_suggestions_list [OF assms] first_suggestion_list [OF assms])

lemma on_data_fault_state:
  "on_data eng data s = Inl (e, s') \<Longrightarrow> s' = s \<or> (\<exists>r. s' = s\<lparr>result := Some r\<rparr>)"
  by (auto simp add: on_data_def then_do_case thrown_in_case split: sum.splits if_splits)

lemma on_data_effects:
  assumes "effects a = effects b"
  shows "(case on_data eng data a of Inl (e, a') \<Rightarrow> Inl (e, effects a') | Inr a' \<Rightarrow> Inr (effects a'))
       = (case on_data eng data b of Inl (e, b') \<Rightarrow> Inl (e, effects b') | Inr b' \<Rightarrow> Inr (effects b'))"
  using assms
  by (simp add: on_data_def then_do_case thrown_in_case effects_def split: sum.splits)

lemma on_data_requests:
  "requests (case on_data eng data a of Inl (e, s') \<Rightarrow> catch_block e s' | Inr s' \<Rightarrow> s')
     = requests a"
  by (simp add: on_data_def then_do_case thrown_in_case catch_block_def split: sum.splits)

subsection \<open>The paths of an uninterrupted attempt\<close>

lemma body_awaited_value:
  "body_awaited eng key env b s =
     s\<lparr>isScanning := True, result := None, imagePreview := preview_loaded env,
       requests := requests s @ [identify_request key b]\<rparr>"
  by (simp add: body_awaited_def run_def)

lemma capture_parsed:
  assumes "encoded env = Resolved b" and "fetched env = Resolved (Resolved data)"
  shows "handleImageCapture eng key (Some f) env s =
    (Done, finally_block
       (case on_data eng data (body_awaited eng key env b s) of
          Inl (e, s') \<Rightarrow> catch_block e s'
        | Inr s' \<Rightarrow> s'))"
  by (simp add: handleImageCapture_def run_def attempt_events_def assms body_awaited_def)

lemma capture_encode_rejected:
  assumes "encoded env = Rejected e"
  shows "handleImageCapture eng key (Some f) env s =
    (Done, finally_block (catch_block e
       (s\<lparr>isScanning := True, result := None, imagePreview := preview_loaded env\<rparr>)))"
  by (simp add: handleImageCapture_def run_def attempt_events_def assms)

lemma capture_fetch_rejected:
  assumes "encoded env = Resolved b" and "fetched env = Rejected e"
  shows "handleImageCapture eng key (Some f) env s =
    (Done, finally_block (catch_block e (body_awaited eng key env b s)))"
  by (simp add: handleImageCapture_def run_def attempt_events_def assms body_awaited_def)

lemma capture_json_rejected:
  assumes "encoded env = Resolved b" and "fetched env = Resolved (Rejected e)"
  shows "handleImageCapture eng key (Some f) env s =
    (Done, finally_block (catch_block e (body_awaited eng key env b s)))"
  by (simp add: handleImageCapture_def run_def attempt_events_def assms body_awaited_def)

lemma capture_finishes:
  "fst (handleImageCapture eng key file env s) = Done"
proof (cases "file")
  case None
  then show ?thesis by (simp add: handleImageCapture_def)
next
  case (Some f)
  show ?thesis
  proof (cases "encoded env")
    case (Rejected e)
    then show ?thesis using Some by (simp add: capture_encode_rejected)
  next
    case (Resolved b)
    show ?thesis
    proof (cases "fetched env")
      case (Rejected e)
      then show ?thesis using Some Resolved by (simp add: capture_fetch_rejected)
    next
      case outer: (Resolved response)
      then show ?thesis using Some Resolved
        by (cases response) (simp_all add: capture_json_rejected capture_parsed)
    qed
  qed
qed

subsection \<open>Invariants of the event loop\<close>

lemma step_effects:
  assumes "effects a = effects b"
  shows "fst (step eng key (p, a) ev) = fst (step eng key (p, b) ev)
       \<and> effects (snd (step eng key (p, a) ev)) = effects (snd (step eng key (p, b) ev))"
proof (cases ev)
  case Clear
  then show ?thesis using assms by (simp add: effects_def handleClear_def)
next
  case (PreviewLoadEnd r)
  then show ?thesis using assms by (simp add: effects_def)
next
  case (Encoded x)
  then show ?thesis using assms
    by (cases p; cases x) (simp_all add: effects_def catch_block_def finally_block_def)
next
  case (Fetched x)
  then show ?thesis using assms
    by (cases p; cases x) (simp_all add: effects_def catch_block_def finally_block_def)
next
  case (Parsed x)
  show ?thesis
  proof (cases x)
    case (Rejected e)
    then show ?thesis using assms Parsed
      by (cases p) (simp_all add: effects_def catch_block_def finally_block_def)
  next
    case (Resolved data)
    have "effects (finally_block
            (case on_data eng data a of Inl (e, s') \<Rightarrow> catch_block e s' | Inr s' \<Rightarrow> s'))
        = effects (finally_block
            (case on_data eng data b of Inl (e, s') \<Rightarrow> catch_block e s' | Inr s' \<Rightarrow> s'))"
      using on_data_effects [OF assms, of eng data]
      by (auto simp add: effects_def catch_block_def finally_block_def split: sum.splits)
    then show ?thesis using assms Parsed Resolved
      by (cases p) simp_all
  qed
qed

lemma run_effects:
  "effects a = effects b \<Longrightarrow>
     fst (run eng key (p, a) es) = fst (run eng key (p, b) es)
     \<and> effects (snd (run eng key (p, a) es)) = effects (snd (run eng key (p, b) es))"
proof (induction es arbitrary: p a b)
  case Nil
  then show ?case by (simp add: run_def)
next
  case (Cons ev es)
  obtain p' a' where a': "step eng key (p, a) ev = (p', a')"
    by (cases "step eng key (p, a) ev")
  obtain q' b' where b': "step eng key (p, b) ev = (q', b')"
    by (cases "step eng key (p, b) ev")
  from step_effects [OF Cons.prems, of eng key p ev] a' b'
  have "p' = q'" and "effects a' = effects b'" by simp_all
  with Cons.IH [of a' b' p'] a' b' show ?case
    by (simp add: run_def)
qed

lemma step_scanning_flag:
  "isScanning (snd c) = (fst c \<noteq> Done) \<Longrightarrow>
   isScanning (snd (step eng key c ev)) = (fst (step eng key c ev) \<noteq> Done)"
proof (cases c)
  case (Pair p s)
  assume inv: "isScanning (snd c) = (fst c \<noteq> Done)"
  show ?thesis
  proof (cases ev)
    case Clear
    then show ?thesis using Pair inv by (simp add: handleClear_def)
  next
    case (PreviewLoadEnd r)
    then show ?thesis using Pair inv by simp
  next
    case (Encoded x)
    then show ?thesis using Pair inv
      by (cases p; cases x) (simp_all add: finally_block_def)
  next
    case (Fetched x)
    then show ?thesis using Pair inv
      by (cases p; cases x) (simp_all add: finally_block_def)
  next
    case (Parsed x)
    then show ?thesis using Pair inv
      by (cases p; cases x) (simp_all add: finally_block_def)
  qed
qed

lemma run_scanning_flag:
  "isScanning (snd c) = (fst c \<noteq> Done) \<Longrightarrow>
   isScanning (snd (run eng key c es)) = (fst (run eng key c es) \<noteq> Done)"
proof (induction es arbitrary: c)
  case Nil
  then show ?case by (simp add: run_def)
next
  case (Cons ev es)
  from Cons.IH [OF step_scanning_flag [OF Cons.prems, of eng key ev]]
  show ?case by (simp add: run_def)
qed

section \<open>The specified properties\<close>

subsection \<open>The top suggestion\<close>

text \<open>
  C1 as stated fails: the response \<open>{"suggestions": [null]}\<close> has a
  non-empty suggestion list, yet reading \<open>topResult.plant_details\<close> throws, the
  \<open>catch\<close> block runs, and no identification record is stored.
\<close>

theorem null_first_suggestion_counterexample:
  "result (snd (handleImageCapture sample_engine None (Some ''leaf.jpg'')
       (answered_with (JObj [(''suggestions'', JArr [JNull])])) initial)) = None
   \<and> toasts (snd (handleImageCapture sample_engine None (Some ''leaf.jpg'')
       (answered_with (JObj [(''suggestions'', JArr [JNull])])) initial)) = [toast_error]"
proof -
  have "opt_member (Some (JObj [(''suggestions'', JArr [JNull])])) ''suggestions''
      = Some (JArr (JNull # []))"
    by (simp add: own_property_def)
  from on_data_null_first [OF this] show ?thesis
    by (simp add: capture_parsed answered_with_def body_awaited_value
        catch_block_def finally_block_def initial_def)
qed

text \<open>
  C1, amended: for every response whose suggestion list is non-empty and whose first
  element is not null, the attempt stores the identification record built from that
  first element alone, and its scientific name is the first suggestion's
  \<open>plant_name\<close> field as it came (undefined when the field is missing). The rest
  of the list is never read.
\<close>

theorem first_suggestion_name_stored:
  assumes "encoded env = Resolved b"
    and "fetched env = Resolved (Resolved data)"
    and "opt_member (Some data) ''suggestions'' = Some (JArr (topResult # rest))"
    and "topResult \<noteq> JNull"
  shows "\<exists>r. identification_of (Some topResult) = Inr r
    \<and> result (snd (handleImageCapture eng key (Some f) env s)) = Some r
    \<and> scientific_name r = get_property topResult ''plant_name''"
proof -
  from identification_of_value [OF assms(4)]
  obtain r where r: "identification_of (Some topResult) = Inr r"
    and n: "scientific_name r = get_property topResult ''plant_name''"
    by simp
  have "result (snd (handleImageCapture eng key (Some f) env s)) = Some r"
    by (simp add: capture_parsed [OF assms(1,2)] on_data_stores [OF assms(3) r]
        finally_block_def)
  with r n show ?thesis by blast
qed

text \<open>
  C1, at a response whose first suggestion is \<open>Monstera deliciosa\<close> and whose second
  element is null.
\<close>

theorem first_suggestion_name_stored_witness:
  "\<exists>r. identification_of (Some monstera) = Inr r
    \<and> result (snd (handleImageCapture sample_engine None (Some ''leaf.jpg'')
         (answered_with (JObj [(''suggestions'', JArr [monstera, JNull])])) initial)) = Some r
    \<and> scientific_name r = Some (JStr ''Monstera deliciosa'')"
  using first_suggestion_name_stored
    [of "answered_with (JObj [(''suggestions'', JArr [monstera, JNull])])"
        "''data:image/jpeg;base64,AAAA''"
        "JObj [(''suggestions'', JArr [monstera, JNull])]" monstera "[JNull]"
        sample_engine None "''leaf.jpg''" initial]
  by (simp add: answered_with_def monstera_def own_property_def)

subsection \<open>No suggestions\<close>

text \<open>
  C2: for every response whose suggestion list is absent (the response is null, has no
  \<open>suggestions\<close> property, or has it null) or empty, no identification record is
  stored: the result is null after the attempt, and the notification emitted is the
  one titled "No Match Found", not the success notification.
\<close>

theorem no_suggestions_no_result:
  assumes "encoded env = Resolved b"
    and "fetched env = Resolved (Resolved data)"
    and "opt_member (Some data) ''suggestions'' = None
       \<or> opt_member (Some data) ''suggestions'' = Some JNull
       \<or> opt_member (Some data) ''suggestions'' = Some (JArr [])"
  shows "result (snd (handleImageCapture eng key (Some f) env s)) = None
    \<and> toasts (snd (handleImageCapture eng key (Some f) env s)) =
        toasts s @ [\<lparr>title = ''No Match Found'',
                     description = ''Try a clearer image or different angle.'',
                     variant = Some ''destructive''\<rparr>]"
  by (simp add: capture_parsed [OF assms(1,2)] on_data_no_match [OF assms(3)]
      body_awaited_value finally_block_def toast_no_match_def)

text \<open>
  C2, at the response \<open>{"suggestions": []}\<close>.
\<close>

theorem no_suggestions_no_result_witness:
  "opt_member (Some (JObj [(''suggestions'', JArr [])])) ''suggestions'' = Some (JArr [])
   \<and> result (snd (handleImageCapture sample_engine None (Some ''leaf.jpg'')
        (answered_with (JObj [(''suggestions'', JArr [])])) initial)) = None
   \<and> toasts (snd (handleImageCapture sample_engine None (Some ''leaf.jpg'')
        (answered_with (JObj [(''suggestions'', JArr [])])) initial)) =
        [\<lparr>title = ''No Match Found'',
          description = ''Try a clearer image or different angle.'',
          variant = Some ''destructive''\<rparr>]"
  using no_suggestions_no_result
    [of "answered_with (JObj [(''suggestions'', JArr [])])"
        "''data:image/jpeg;base64,AAAA''"
        "JObj [(''suggestions'', JArr [])]" sample_engine None "''leaf.jpg''" initial]
  by (simp add: answered_with_def initial_def own_property_def)

subsection \<open>Clearing during an attempt\<close>

text \<open>
  C3 as stated fails: the handler has no guard against a session cleared in the
  meantime. Here the clear button is pressed after the request was sent and before
  the body is parsed; the response is then applied all the same, setting the result
  and emitting the success notification.
\<close>

theorem clear_while_outstanding_counterexample:
  "map_option scientific_name (result (snd (run sample_engine None
       (begin_capture (Some ''leaf.jpg'') initial)
       [PreviewLoadEnd (Some ''data:image/jpeg;base64,AAAA''),
        Encoded (Resolved ''data:image/jpeg;base64,AAAA''),
        Fetched (Resolved ()),
        Clear,
        Parsed (Resolved (JObj [(''suggestions'', JArr [monstera])]))])))
     = Some (Some (JStr ''Monstera deliciosa''))
   \<and> toasts (snd (run sample_engine None
       (begin_capture (Some ''leaf.jpg'') initial)
       [PreviewLoadEnd (Some ''data:image/jpeg;base64,AAAA''),
        Encoded (Resolved ''data:image/jpeg;base64,AAAA''),
        Fetched (Resolved ()),
        Clear,
        Parsed (Resolved (JObj [(''suggestions'', JArr [monstera])]))]))
     = [\<lparr>title = ''Plant Identified!'', description = ''Found: Monstera deliciosa'',
          variant = None\<rparr>]"
proof -
  have sg: "opt_member (Some (JObj [(''suggestions'', JArr [monstera])])) ''suggestions''
      = Some (JArr (monstera # []))"
    by (simp add: own_property_def)
  obtain r where r: "identification_of (Some monstera) = Inr r"
    and n: "scientific_name r = Some (JStr ''Monstera deliciosa'')"
    by (simp add: monstera_def own_property_def)
  have t: "template_string sample_engine (get_property monstera ''plant_name'')
      = Inr ''Monstera deliciosa''"
    by (simp add: monstera_def own_property_def)
  show ?thesis
    by (simp add: run_def on_data_identified [OF sg r t] n initial_def handleClear_def
        finally_block_def toast_identified_def)
qed

text \<open>
  C3, amended: clearing while a request is outstanding does not discard its
  response. A body that arrives after the clear, has a non-empty suggestion list
  with a non-null first element and a plant name that converts to a string, sets the
  result and emits the success notification; a body that fails to parse emits the
  error notification; and whatever happens after the clear, the notifications,
  requests, console lines and scanning flag are those of the same events without
  the clear. The clear itself empties the preview, the result and the file input
  and changes nothing else.
\<close>

theorem clear_does_not_discard_response:
  assumes "opt_member (Some data) ''suggestions'' = Some (JArr (topResult # rest))"
    and "identification_of (Some topResult) = Inr r"
    and "template_string eng (get_property topResult ''plant_name'') = Inr name"
  shows "run eng key (AwaitJson, handleClear s) [Parsed (Resolved data)] =
      (Done, (handleClear s)
         \<lparr>result := Some r,
          toasts := toasts s @
            [\<lparr>title = ''Plant Identified!'', description = ''Found: '' @ name,
              variant = None\<rparr>],
          isScanning := False\<rparr>)
    \<and> run eng key (AwaitJson, handleClear s) [Parsed (Rejected e)] =
      (Done, (handleClear s)
         \<lparr>console := console s @ [e],
          toasts := toasts s @
            [\<lparr>title = ''Error'', description = ''Unable to identify this plant.'',
              variant = Some ''destructive''\<rparr>],
          isScanning := False\<rparr>)
    \<and> fst (run eng key (p, handleClear s) es) = fst (run eng key (p, s) es)
    \<and> effects (snd (run eng key (p, handleClear s) es)) = effects (snd (run eng key (p, s) es))
    \<and> effects (handleClear s) = effects s
    \<and> imagePreview (handleClear s) = None
    \<and> result (handleClear s) = None
    \<and> fileInput (handleClear s) = (case fileInput s of None \<Rightarrow> None | Some v \<Rightarrow> Some [])"
proof -
  have same: "effects (handleClear s) = effects s"
    by (simp add: effects_def handleClear_def)
  from run_effects [OF same, of eng key p es]
  have general: "fst (run eng key (p, handleClear s) es) = fst (run eng key (p, s) es)
    \<and> effects (snd (run eng key (p, handleClear s) es)) = effects (snd (run eng key (p, s) es))" .
  have applied: "run eng key (AwaitJson, handleClear s) [Parsed (Resolved data)] =
      (Done, (handleClear s)
         \<lparr>result := Some r,
          toasts := toasts s @
            [\<lparr>title = ''Plant Identified!'', description = ''Found: '' @ name,
              variant = None\<rparr>],
          isScanning := False\<rparr>)"
    by (simp add: run_def on_data_identified [OF assms] finally_block_def handleClear_def
        toast_identified_def)
  have failed: "run eng key (AwaitJson, handleClear s) [Parsed (Rejected e)] =
      (Done, (handleClear s)
         \<lparr>console := console s @ [e],
          toasts := toasts s @
            [\<lparr>title = ''Error'', description = ''Unable to identify this plant.'',
              variant = Some ''destructive''\<rparr>],
          isScanning := False\<rparr>)"
    by (simp add: run_def catch_block_def finally_block_def handleClear_def toast_error_def)
  have cleared: "imagePreview (handleClear s) = None \<and> result (handleClear s) = None
    \<and> fileInput (handleClear s) = (case fileInput s of None \<Rightarrow> None | Some v \<Rightarrow> Some [])"
    by (simp add: handleClear_def)
  from applied failed general same cleared show ?thesis by simp
qed

text \<open>
  C3, at an attempt that is cleared while its request is outstanding, with the preview
  shown and the request logged, and is then answered with \<open>Monstera deliciosa\<close>.
\<close>

theorem clear_does_not_discard_response_witness:
  "body_awaited sample_engine None (answered_with JNull) ''data:image/jpeg;base64,AAAA'' picked =
     \<lparr>isScanning = True, imagePreview = Some ''data:image/jpeg;base64,AAAA'',
      result = None, fileInput = Some ''leaf.jpg'', toasts = [],
      requests = [identify_request None ''data:image/jpeg;base64,AAAA''], console = []\<rparr>
   \<and> run sample_engine None
       (AwaitJson, handleClear
          (body_awaited sample_engine None (answered_with JNull)
             ''data:image/jpeg;base64,AAAA'' picked))
       [Parsed (Resolved (JObj [(''suggestions'', JArr [monstera])]))] =
     (Done,
      \<lparr>isScanning = False, imagePreview = None,
       result = Some
         \<lparr>common_names = Some (JArr [JStr ''Swiss cheese plant'']),
          scientific_name = Some (JStr ''Monstera deliciosa''),
          probability = Some (JNum (97 / 100)),
          wiki_description = None,
          taxonomy = Some (JObj [(''family'', JStr ''Araceae''),
                                 (''genus'', JStr ''Monstera'')])\<rparr>,
       fileInput = Some [],
       toasts = [\<lparr>title = ''Plant Identified!'',
                  description = ''Found: Monstera deliciosa'', variant = None\<rparr>],
       requests = [identify_request None ''data:image/jpeg;base64,AAAA''],
       console = []\<rparr>)"
proof -
  have sg: "opt_member (Some (JObj [(''suggestions'', JArr [monstera])])) ''suggestions''
      = Some (JArr (monstera # []))"
    by (simp add: own_property_def)
  have r: "identification_of (Some monstera) = Inr
         \<lparr>common_names = Some (JArr [JStr ''Swiss cheese plant'']),
          scientific_name = Some (JStr ''Monstera deliciosa''),
          probability = Some (JNum (97 / 100)),
          wiki_description = None,
          taxonomy = Some (JObj [(''family'', JStr ''Araceae''),
                                 (''genus'', JStr ''Monstera'')])\<rparr>"
    by (simp add: monstera_def own_property_def js_or_def)
  have t: "template_string sample_engine (get_property monstera ''plant_name'')
      = Inr ''Monstera deliciosa''"
    by (simp add: monstera_def own_property_def)
  have w: "body_awaited sample_engine None (answered_with JNull) ''data:image/jpeg;base64,AAAA'' picked =
     \<lparr>isScanning = True, imagePreview = Some ''data:image/jpeg;base64,AAAA'',
      result = None, fileInput = Some ''leaf.jpg'', toasts = [],
      requests = [identify_request None ''data:image/jpeg;base64,AAAA''], console = []\<rparr>"
    by (simp add: body_awaited_value answered_with_def picked_def initial_def)
  from clear_does_not_discard_response [OF sg r t,
      where key = None
        and s = "body_awaited sample_engine None (answered_with JNull)
                   ''data:image/jpeg;base64,AAAA'' picked"]
  show ?thesis
    unfolding w by (simp add: handleClear_def)
qed

subsection \<open>The displayed confidence\<close>

text \<open>
  C4 fails on the code at the probability 0. The value is stored as reported, but the
  confidence line is guarded by \<open>result.probability && ...\<close>, which tests
  truthiness, not presence: for the stored probability 0 the expression is the
  number 0 itself and the paragraph with the percentage is not produced.
\<close>

theorem zero_probability_shows_no_confidence:
  "map_option probability (result (snd (handleImageCapture eng key (Some f)
       (answered_with zero_probability_response) s))) = Some (Some (JNum 0))
   \<and> map_option (confidence_child eng) (result (snd (handleImageCapture eng key (Some f)
       (answered_with zero_probability_response) s)))
     = Some (Inr (Falsy_child (Some (JNum 0))))"
proof -
  have sg: "opt_member (Some zero_probability_response) ''suggestions''
      = Some (JArr (JObj [(''plant_name'', JStr ''Aloe vera''), (''probability'', JNum 0)] # []))"
    by (simp add: zero_probability_response_def own_property_def)
  obtain r where r: "identification_of
      (Some (JObj [(''plant_name'', JStr ''Aloe vera''), (''probability'', JNum 0)])) = Inr r"
    and p: "probability r = Some (JNum 0)"
    by (simp add: own_property_def)
  have "result (snd (handleImageCapture eng key (Some f)
       (answered_with zero_probability_response) s)) = Some r"
    by (simp add: capture_parsed answered_with_def on_data_stores [OF sg r] finally_block_def)
  then show ?thesis
    by (simp add: p confidence_child_def)
qed

subsection \<open>Missing details\<close>

text \<open>
  C5 as stated fails: for a top suggestion without \<open>plant_details\<close> the stored
  common names are the empty array, not absent.
\<close>

theorem missing_details_counterexample:
  "identification_of (Some (JObj [(''plant_name'', JStr ''Aloe vera'')])) = Inr
     \<lparr>common_names = Some (JArr []),
      scientific_name = Some (JStr ''Aloe vera''),
      probability = None, wiki_description = None, taxonomy = None\<rparr>"
  by (simp add: js_or_def own_property_def)

text \<open>
  C5, amended: in the record built from a top suggestion, the scientific name and the
  probability are the suggestion's \<open>plant_name\<close> and \<open>probability\<close> as they
  came, and the description and the taxonomy are the \<open>wiki_description\<close> and
  \<open>taxonomy\<close> of its \<open>plant_details\<close> as they came: each is absent exactly
  when the response did not have it (a property that an object does not list reads
  as absent), and no placeholder is put in its place. The common names are never
  absent: they are the \<open>common_names\<close> of the details when that value is truthy
  and the empty array otherwise. In particular, when \<open>plant_details\<close> is missing
  or null, description and taxonomy are absent and the common names are the empty
  array.
\<close>

theorem normalized_fields:
  assumes "topResult \<noteq> JNull"
  shows "\<exists>r. identification_of (Some topResult) = Inr r
    \<and> scientific_name r = get_property topResult ''plant_name''
    \<and> probability r = get_property topResult ''probability''
    \<and> wiki_description r =
        opt_member (get_property topResult ''plant_details'') ''wiki_description''
    \<and> taxonomy r = opt_member (get_property topResult ''plant_details'') ''taxonomy''
    \<and> common_names r =
        (if truthy (opt_member (get_property topResult ''plant_details'') ''common_names'')
         then opt_member (get_property topResult ''plant_details'') ''common_names''
         else Some (JArr []))
    \<and> common_names r \<noteq> None
    \<and> (get_property topResult ''plant_details'' = None
         \<or> get_property topResult ''plant_details'' = Some JNull
       \<longrightarrow> wiki_description r = None \<and> taxonomy r = None
           \<and> common_names r = Some (JArr []))
    \<and> (topResult = JObj kvs \<and> name \<notin> fst ` set kvs
       \<longrightarrow> get_property topResult name = None)
    \<and> (get_property topResult ''plant_details'' = Some (JObj details)
         \<and> name \<notin> fst ` set details
       \<longrightarrow> opt_member (get_property topResult ''plant_details'') name = None)"
proof -
  have absent: "n \<notin> fst ` set xs \<Longrightarrow> own_property xs n = None" for n xs
    by (simp add: own_property_def map_of_eq_None_iff)
  have nonempty: "truthy c \<Longrightarrow> c \<noteq> None" for c
    by (cases c) simp_all
  show ?thesis
    using nonempty
      [of "opt_member (get_property topResult ''plant_details'') ''common_names''"]
    by (auto simp add: identification_of_value [OF assms] js_or_def absent)
qed

text \<open>
  C5, at a suggestion whose details have common names and a taxonomy but no
  description, and at a suggestion that has a probability and nothing else.
\<close>

theorem normalized_fields_witness:
  "monstera \<noteq> JNull
   \<and> identification_of (Some monstera) = Inr
         \<lparr>common_names = Some (JArr [JStr ''Swiss cheese plant'']),
          scientific_name = Some (JStr ''Monstera deliciosa''),
          probability = Some (JNum (97 / 100)),
          wiki_description = None,
          taxonomy = Some (JObj [(''family'', JStr ''Araceae''),
                                 (''genus'', JStr ''Monstera'')])\<rparr>
   \<and> identification_of (Some (JObj [(''probability'', JNum (1 / 2))])) = Inr
         \<lparr>common_names = Some (JArr []),
          scientific_name = None,
          probability = Some (JNum (1 / 2)),
          wiki_description = None, taxonomy = None\<rparr>"
proof -
  have a: "monstera \<noteq> JNull"
    by (simp add: monstera_def)
  have b: "JObj [(''probability'', JNum (1 / 2))] \<noteq> JNull"
    by simp
  from normalized_fields [OF a] normalized_fields [OF b]
  show ?thesis
    using a by (auto simp add: monstera_def own_property_def)
qed

subsection \<open>Failures\<close>




subsection \<open>Clearing\<close>

text \<open>
  C7 as stated fails for the scanning state: \<open>handleClear\<close> does not write
  \<open>isScanning\<close>, so a clear while the scan is running (the clear button is shown
  with the preview) leaves the flag set, and the state is not the idle one.
\<close>

theorem clear_while_scanning_counterexample:
  "\<not> idle (snd (begin_capture (Some ''leaf.jpg'') initial))
   \<and> \<not> idle (snd (run sample_engine None (begin_capture (Some ''leaf.jpg'') initial)
        [PreviewLoadEnd (Some ''data:image/jpeg;base64,AAAA''), Clear]))
   \<and> isScanning (snd (run sample_engine None (begin_capture (Some ''leaf.jpg'') initial)
        [PreviewLoadEnd (Some ''data:image/jpeg;base64,AAAA''), Clear])) = True"
  by (simp add: run_def idle_def initial_def handleClear_def)

text \<open>
  C7, amended: \<open>handleClear\<close> always succeeds, leaves no image preview and no
  identification result, and leaves the scanning flag and everything emitted so far
  as they were; so from every state in which no scan is running it yields exactly
  the idle state.
\<close>

theorem clear_resets_preview_and_result:
  "imagePreview (handleClear s) = None
   \<and> result (handleClear s) = None
   \<and> effects (handleClear s) = effects s
   \<and> (\<not> isScanning s \<longrightarrow> idle (handleClear s))"
  by (simp add: handleClear_def idle_def initial_def effects_def)

text \<open>
  C7, at the state after a successful identification.
\<close>

theorem clear_resets_preview_and_result_witness:
  "\<not> isScanning (snd (handleImageCapture sample_engine None (Some ''leaf.jpg'')
        (answered_with (JObj [(''suggestions'', JArr [monstera])])) initial))
   \<and> result (snd (handleImageCapture sample_engine None (Some ''leaf.jpg'')
        (answered_with (JObj [(''suggestions'', JArr [monstera])])) initial)) \<noteq> None
   \<and> idle (handleClear (snd (handleImageCapture sample_engine None (Some ''leaf.jpg'')
        (answered_with (JObj [(''suggestions'', JArr [monstera])])) initial)))"
proof -
  have sg: "opt_member (Some (JObj [(''suggestions'', JArr [monstera])])) ''suggestions''
      = Some (JArr (monstera # []))"
    by (simp add: own_property_def)
  obtain r where r: "identification_of (Some monstera) = Inr r"
    by (simp add: monstera_def)
  have flag: "\<not> isScanning (snd (handleImageCapture sample_engine None (Some ''leaf.jpg'')
        (answered_with (JObj [(''suggestions'', JArr [monstera])])) initial))"
    by (simp add: capture_parsed answered_with_def finally_block_def)
  have res: "result (snd (handleImageCapture sample_engine None (Some ''leaf.jpg'')
        (answered_with (JObj [(''suggestions'', JArr [monstera])])) initial)) \<noteq> None"
    by (simp add: capture_parsed answered_with_def finally_block_def on_data_stores [OF sg r])
  from clear_resets_preview_and_result
    [of "snd (handleImageCapture sample_engine None (Some ''leaf.jpg'')
        (answered_with (JObj [(''suggestions'', JArr [monstera])])) initial)"] flag res
  show ?thesis by blast
qed

subsection \<open>Notifications\<close>

text \<open>
  C8 as stated fails: the notification for no match carries the same variant,
  \<open>destructive\<close>, as the one for an error. The component has no warning
  category.
\<close>

theorem no_match_variant_counterexample:
  "toasts (snd (handleImageCapture sample_engine None (Some ''leaf.jpg'')
       (answered_with (JObj [(''suggestions'', JArr [])])) initial)) =
     [\<lparr>title = ''No Match Found'',
       description = ''Try a clearer image or different angle.'',
       variant = Some ''destructive''\<rparr>]
   \<and> toasts (snd (handleImageCapture sample_engine None (Some ''leaf.jpg'') offline initial)) =
     [\<lparr>title = ''Error'', description = ''Unable to identify this plant.'',
       variant = Some ''destructive''\<rparr>]"
proof -
  have sg: "opt_member (Some (JObj [(''suggestions'', JArr [])])) ''suggestions'' = None
    \<or> opt_member (Some (JObj [(''suggestions'', JArr [])])) ''suggestions'' = Some JNull
    \<or> opt_member (Some (JObj [(''suggestions'', JArr [])])) ''suggestions'' = Some (JArr [])"
    by (simp add: own_property_def)
  have enc: "encoded offline = Resolved ''data:image/jpeg;base64,AAAA''"
    and fet: "fetched offline = Rejected FetchFailure"
    by (simp_all add: offline_def)
  show ?thesis
    by (simp add: capture_parsed answered_with_def on_data_no_match [OF sg]
        capture_fetch_rejected [OF enc fet] body_awaited_value
        catch_block_def finally_block_def initial_def toast_no_match_def toast_error_def)
qed

text \<open>
  C8, amended: an attempt emits one of three notifications. A non-empty suggestion
  list whose first element is not null and whose plant name converts to a string
  gives "Plant Identified!" with the description "Found: " followed by that
  string, and no variant; an absent or empty suggestion list gives "No Match
  Found" with the guidance text and the destructive variant; a rejected encoding,
  a rejected request, an unparsable body or a fault thrown while the body is
  processed gives "Error" with the generic text and the destructive variant. The
  last two differ in title and description, not in category.
\<close>

theorem notifications_by_outcome:
  "(encoded env = Resolved b \<and> fetched env = Resolved (Resolved data)
        \<and> opt_member (Some data) ''suggestions'' = Some (JArr (topResult # rest))
        \<and> topResult \<noteq> JNull
        \<and> template_string eng (get_property topResult ''plant_name'') = Inr name
      \<longrightarrow> toasts (snd (handleImageCapture eng key (Some f) env s)) =
          toasts s @ [\<lparr>title = ''Plant Identified!'', description = ''Found: '' @ name,
                       variant = None\<rparr>])
    \<and> (encoded env = Resolved b \<and> fetched env = Resolved (Resolved data)
        \<and> (opt_member (Some data) ''suggestions'' = None
           \<or> opt_member (Some data) ''suggestions'' = Some JNull
           \<or> opt_member (Some data) ''suggestions'' = Some (JArr []))
      \<longrightarrow> toasts (snd (handleImageCapture eng key (Some f) env s)) =
          toasts s @ [\<lparr>title = ''No Match Found'',
             description = ''Try a clearer image or different angle.'',
             variant = Some ''destructive''\<rparr>])
    \<and> (encoded env = Rejected e
        \<or> (encoded env = Resolved b
            \<and> (fetched env = Rejected e \<or> fetched env = Resolved (Rejected e)
                \<or> (fetched env = Resolved (Resolved data)
                    \<and> on_data eng data (body_awaited eng key env b s) = Inl (e, s'))))
      \<longrightarrow> toasts (snd (handleImageCapture eng key (Some f) env s)) =
          toasts s @ [\<lparr>title = ''Error'', description = ''Unable to identify this plant.'',
             variant = Some ''destructive''\<rparr>])"
proof -
  have identified: "encoded env = Resolved b \<and> fetched env = Resolved (Resolved data)
        \<and> opt_member (Some data) ''suggestions'' = Some (JArr (topResult # rest))
        \<and> topResult \<noteq> JNull
        \<and> template_string eng (get_property topResult ''plant_name'') = Inr name
      \<longrightarrow> toasts (snd (handleImageCapture eng key (Some f) env s)) =
          toasts s @ [\<lparr>title = ''Plant Identified!'', description = ''Found: '' @ name,
                       variant = None\<rparr>]"
  proof (rule impI)
    assume h: "encoded env = Resolved b \<and> fetched env = Resolved (Resolved data)
        \<and> opt_member (Some data) ''suggestions'' = Some (JArr (topResult # rest))
        \<and> topResult \<noteq> JNull
        \<and> template_string eng (get_property topResult ''plant_name'') = Inr name"
    then have enc: "encoded env = Resolved b" and fet: "fetched env = Resolved (Resolved data)"
      and sg: "opt_member (Some data) ''suggestions'' = Some (JArr (topResult # rest))"
      and nn: "topResult \<noteq> JNull"
      and t: "template_string eng (get_property topResult ''plant_name'') = Inr name"
      by simp_all
    obtain r where r: "identification_of (Some topResult) = Inr r"
      using identification_of_value [OF nn] by simp
    show "toasts (snd (handleImageCapture eng key (Some f) env s)) =
          toasts s @ [\<lparr>title = ''Plant Identified!'', description = ''Found: '' @ name,
                       variant = None\<rparr>]"
      by (simp add: capture_parsed [OF enc fet] on_data_identified [OF sg r t]
          body_awaited_value finally_block_def toast_identified_def)
  qed
  have no_match: "encoded env = Resolved b \<and> fetched env = Resolved (Resolved data)
        \<and> (opt_member (Some data) ''suggestions'' = None
           \<or> opt_member (Some data) ''suggestions'' = Some JNull
           \<or> opt_member (Some data) ''suggestions'' = Some (JArr []))
      \<longrightarrow> toasts (snd (handleImageCapture eng key (Some f) env s)) =
          toasts s @ [\<lparr>title = ''No Match Found'',
             description = ''Try a clearer image or different angle.'',
             variant = Some ''destructive''\<rparr>]"
  proof (rule impI)
    assume h: "encoded env = Resolved b \<and> fetched env = Resolved (Resolved data)
        \<and> (opt_member (Some data) ''suggestions'' = None
           \<or> opt_member (Some data) ''suggestions'' = Some JNull
           \<or> opt_member (Some data) ''suggestions'' = Some (JArr []))"
    then have enc: "encoded env = Resolved b" and fet: "fetched env = Resolved (Resolved data)"
      and sg: "opt_member (Some data) ''suggestions'' = None
           \<or> opt_member (Some data) ''suggestions'' = Some JNull
           \<or> opt_member (Some data) ''suggestions'' = Some (JArr [])"
      by simp_all
    show "toasts (snd (handleImageCapture eng key (Some f) env s)) =
          toasts s @ [\<lparr>title = ''No Match Found'',
             description = ''Try a clearer image or different angle.'',
             variant = Some ''destructive''\<rparr>]"
      by (simp add: capture_parsed [OF enc fet] on_data_no_match [OF sg]
          body_awaited_value finally_block_def toast_no_match_def)
  qed
  have failed: "encoded env = Rejected e
        \<or> (encoded env = Resolved b
            \<and> (fetched env = Rejected e \<or> fetched env = Resolved (Rejected e)
                \<or> (fetched env = Resolved (Resolved data)
                    \<and> on_data eng data (body_awaited eng key env b s) = Inl (e, s'))))
      \<longrightarrow> toasts (snd (handleImageCapture eng key (Some f) env s)) =
          toasts s @ [\<lparr>title = ''Error'', description = ''Unable to identify this plant.'',
             variant = Some ''destructive''\<rparr>]"
  proof (rule impI)
    assume h: "encoded env = Rejected e
        \<or> (encoded env = Resolved b
            \<and> (fetched env = Rejected e \<or> fetched env = Resolved (Rejected e)
                \<or> (fetched env = Resolved (Resolved data)
                    \<and> on_data eng data (body_awaited eng key env b s) = Inl (e, s'))))"
    have thrown: "toasts s' = toasts s"
      if "on_data eng data (body_awaited eng key env b s) = Inl (e, s')"
      using on_data_fault_state [OF that] by (auto simp add: body_awaited_value)
    have "\<exists>s0. handleImageCapture eng key (Some f) env s
          = (Done, finally_block (catch_block e s0)) \<and> toasts s0 = toasts s"
      using h thrown
      by (auto simp add: capture_encode_rejected capture_fetch_rejected capture_json_rejected
          capture_parsed body_awaited_value)
    then obtain s0 where c: "handleImageCapture eng key (Some f) env s
          = (Done, finally_block (catch_block e s0))" and t: "toasts s0 = toasts s"
      by blast
    show "toasts (snd (handleImageCapture eng key (Some f) env s)) =
          toasts s @ [\<lparr>title = ''Error'', description = ''Unable to identify this plant.'',
             variant = Some ''destructive''\<rparr>]"
      by (simp add: c t catch_block_def finally_block_def toast_error_def)
  qed
  from identified no_match failed show ?thesis by blast
qed

text \<open>
  C8, at one attempt of each kind: identified, no match, encoding rejected, and a
  plant name that cannot be converted.
\<close>

theorem notifications_by_outcome_witness:
  "toasts (snd (handleImageCapture sample_engine None (Some ''leaf.jpg'')
       (answered_with (JObj [(''suggestions'', JArr [monstera])])) initial)) =
     [\<lparr>title = ''Plant Identified!'', description = ''Found: Monstera deliciosa'',
       variant = None\<rparr>]
   \<and> toasts (snd (handleImageCapture sample_engine None (Some ''leaf.jpg'')
       (answered_with JNull) initial)) =
     [\<lparr>title = ''No Match Found'',
       description = ''Try a clearer image or different angle.'',
       variant = Some ''destructive''\<rparr>]
   \<and> toasts (snd (handleImageCapture sample_engine None (Some ''leaf.jpg'')
       (answered_with JNull\<lparr>encoded := Rejected ReadFailure\<rparr>) initial)) =
     [\<lparr>title = ''Error'', description = ''Unable to identify this plant.'',
       variant = Some ''destructive''\<rparr>]
   \<and> toasts (snd (handleImageCapture sample_engine None (Some ''leaf.jpg'')
       (answered_with unnameable_response) initial)) =
     [\<lparr>title = ''Error'', description = ''Unable to identify this plant.'',
       variant = Some ''destructive''\<rparr>]"
proof -
  have t: "toasts initial = []"
    by (simp add: initial_def)
  have a: "toasts (snd (handleImageCapture sample_engine None (Some ''leaf.jpg'')
       (answered_with (JObj [(''suggestions'', JArr [monstera])])) initial)) =
     [\<lparr>title = ''Plant Identified!'', description = ''Found: Monstera deliciosa'',
       variant = None\<rparr>]"
    using notifications_by_outcome
      [where env = "answered_with (JObj [(''suggestions'', JArr [monstera])])"
         and b = "''data:image/jpeg;base64,AAAA''"
         and data = "JObj [(''suggestions'', JArr [monstera])]"
         and topResult = monstera and rest = "[]" and name = "''Monstera deliciosa''"
         and eng = sample_engine and key = None and f = "''leaf.jpg''" and s = initial] t
    by (simp add: answered_with_def monstera_def own_property_def)
  have b: "toasts (snd (handleImageCapture sample_engine None (Some ''leaf.jpg'')
       (answered_with JNull) initial)) =
     [\<lparr>title = ''No Match Found'',
       description = ''Try a clearer image or different angle.'',
       variant = Some ''destructive''\<rparr>]"
    using notifications_by_outcome
      [where env = "answered_with JNull" and b = "''data:image/jpeg;base64,AAAA''"
         and data = JNull
         and eng = sample_engine and key = None and f = "''leaf.jpg''" and s = initial] t
    by (simp add: answered_with_def)
  have c: "toasts (snd (handleImageCapture sample_engine None (Some ''leaf.jpg'')
       (answered_with JNull\<lparr>encoded := Rejected ReadFailure\<rparr>) initial)) =
     [\<lparr>title = ''Error'', description = ''Unable to identify this plant.'',
       variant = Some ''destructive''\<rparr>]"
    using notifications_by_outcome
      [where env = "answered_with JNull\<lparr>encoded := Rejected ReadFailure\<rparr>"
         and e = ReadFailure
         and eng = sample_engine and key = None and f = "''leaf.jpg''" and s = initial] t
    by (simp add: answered_with_def)
  have sg: "opt_member (Some unnameable_response) ''suggestions''
      = Some (JArr (JObj [(''plant_name'', JObj [(''toString'', JNum 1)])] # []))"
    by (simp add: unnameable_response_def own_property_def)
  obtain r where r: "identification_of
      (Some (JObj [(''plant_name'', JObj [(''toString'', JNum 1)])])) = Inr r"
    by simp
  have nf: "template_string sample_engine
      (get_property (JObj [(''plant_name'', JObj [(''toString'', JNum 1)])]) ''plant_name'')
      = Inl NotConvertible"
    by (simp add: own_property_def)
  have enc: "encoded (answered_with unnameable_response) = Resolved ''data:image/jpeg;base64,AAAA''"
    and fet: "fetched (answered_with unnameable_response) = Resolved (Resolved unnameable_response)"
    by (simp_all add: answered_with_def)
  have d: "toasts (snd (handleImageCapture sample_engine None (Some ''leaf.jpg'')
       (answered_with unnameable_response) initial)) =
     [\<lparr>title = ''Error'', description = ''Unable to identify this plant.'',
       variant = Some ''destructive''\<rparr>]"
    using notifications_by_outcome
      [where env = "answered_with unnameable_response"
         and b = "''data:image/jpeg;base64,AAAA''" and data = unnameable_response
         and e = NotConvertible
         and s' = "(body_awaited sample_engine None (answered_with unnameable_response)
                      ''data:image/jpeg;base64,AAAA'' initial)\<lparr>result := Some r\<rparr>"
         and eng = sample_engine and key = None and f = "''leaf.jpg''" and s = initial]
      t enc fet on_data_name_fault [OF sg r nf]
    by simp
  from a b c d show ?thesis by simp
qed

subsection \<open>The request\<close>

text \<open>
  C9: an attempt sends no request when the encoding fails and otherwise exactly one:
  a POST to the identification endpoint with the headers \<open>Content-Type:
  application/json\<close> and \<open>Api-Key\<close> (the configured credential), whose body is the
  object with \<open>images\<close>, the one-element array of the encoded image, and
  \<open>similar_images\<close>, true.
\<close>

theorem request_shape:
  "requests (snd (handleImageCapture eng key (Some f) env s)) =
     requests s @
     (case encoded env of
        Rejected e \<Rightarrow> []
      | Resolved base64Image \<Rightarrow>
          [\<lparr>url = ''https://api.plant.id/v2/identify'',
            http_method = ''POST'',
            headers = [(''Content-Type'', Some ''application/json''), (''Api-Key'', key)],
            body = JObj [(''images'', JArr [JStr base64Image]),
                         (''similar_images'', JBool True)]\<rparr>])"
proof (cases "encoded env")
  case (Rejected e)
  then show ?thesis
    by (simp add: capture_encode_rejected catch_block_def finally_block_def)
next
  case (Resolved b)
  have "requests (snd (handleImageCapture eng key (Some f) env s)) =
      requests s @ [identify_request key b]"
  proof (cases "fetched env")
    case (Rejected e)
    then show ?thesis using Resolved
      by (simp add: capture_fetch_rejected catch_block_def finally_block_def
          body_awaited_value)
  next
    case outer: (Resolved response)
    show ?thesis
    proof (cases response)
      case (Rejected e)
      then show ?thesis using Resolved outer
        by (simp add: capture_json_rejected catch_block_def finally_block_def
            body_awaited_value)
    next
      case inner: (Resolved data)
      then show ?thesis using Resolved outer
        by (simp add: capture_parsed finally_block_def on_data_requests body_awaited_value)
    qed
  qed
  then show ?thesis using Resolved
    by (simp add: identify_request_def)
qed

subsection \<open>The scanning flag\<close>

text \<open>
  C10: for a provided file the scanning flag is set when the attempt begins and is
  false when the handler has finished, whatever the encoder, the service and the
  parser answer; and however the attempt is interleaved with clears and with the
  preview, the flag is set exactly as long as the handler has not finished.
\<close>

theorem scanning_flag_set_and_reset:
  "isScanning (snd (begin_capture (Some f) s)) = True
   \<and> fst (handleImageCapture eng key (Some f) env s) = Done
   \<and> isScanning (snd (handleImageCapture eng key (Some f) env s)) = False
   \<and> isScanning (snd (run eng key (begin_capture (Some f) s) es))
       = (fst (run eng key (begin_capture (Some f) s) es) \<noteq> Done)"
proof -
  have start: "isScanning (snd (begin_capture (Some f) s)) = (fst (begin_capture (Some f) s) \<noteq> Done)"
    by simp
  have "isScanning (snd (handleImageCapture eng key (Some f) env s))
      = (fst (handleImageCapture eng key (Some f) env s) \<noteq> Done)"
    using run_scanning_flag [OF start, of eng key "attempt_events env"]
    by (simp add: handleImageCapture_def)
  then have "isScanning (snd (handleImageCapture eng key (Some f) env s)) = False"
    by (simp add: capture_finishes)
  with run_scanning_flag [OF start, of eng key es] show ?thesis
    by (simp add: capture_finishes)
qed

end
